theory Spec2Isabelle
  imports Complex_Main "HOL-Library.Sublist"
begin

section \<open>Python values\<close>

text \<open>
  A Python \<open>str\<close> is a sequence of Unicode code points, and \<open>len\<close> and slicing count
  code points. It is modelled as the list of its code points, so that a country name
  outside ASCII has the length Python gives it. \<open>lit\<close> embeds a literal of the program
  text.
\<close>

type_synonym pystr = "nat list"

definition lit :: "string \<Rightarrow> pystr" where
  "lit s = map of_char s"

text \<open>
  The values that travel through the script: what \<open>response.json()\<close> returns (objects,
  arrays, strings, numbers, booleans, null) and the cells of the tables built from it.
  \<open>int\<close> and \<open>float\<close> are both \<open>PyNum\<close> (Python compares them by value, \<open>100 == 100.0\<close>),
  with the reals standing for the finite floats; \<open>PyNaN\<close> is the float \<open>nan\<close>, which pandas
  writes into a missing cell. A \<open>dict\<close> keeps its insertion order: an association list.
\<close>

datatype pyobj =
    PyNone
  | PyBool bool
  | PyNum real
  | PyNaN
  | PyStr pystr
  | PyList "pyobj list"
  | PyDict "(pystr \<times> pyobj) list"

datatype error = KeyError | IndexError | TypeError | ValueError

text \<open>\<open>len(x)\<close>: defined on strings, lists and dicts, a \<open>TypeError\<close> otherwise.\<close>

fun py_len :: "pyobj \<Rightarrow> error + nat" where
  "py_len (PyStr s) = Inr (length s)"
| "py_len (PyList xs) = Inr (length xs)"
| "py_len (PyDict kvs) = Inr (length kvs)"
| "py_len _ = Inl TypeError"

text \<open>Truth value of an object, as \<open>and\<close> and \<open>if\<close> test it.\<close>

fun py_truthy :: "pyobj \<Rightarrow> bool" where
  "py_truthy PyNone = False"
| "py_truthy (PyBool b) = b"
| "py_truthy (PyNum x) = (x \<noteq> 0)"
| "py_truthy PyNaN = True"
| "py_truthy (PyStr s) = (s \<noteq> [])"
| "py_truthy (PyList xs) = (xs \<noteq> [])"
| "py_truthy (PyDict kvs) = (kvs \<noteq> [])"

text \<open>\<open>isinstance(x, dict)\<close>.\<close>

fun is_dict :: "pyobj \<Rightarrow> bool" where
  "is_dict (PyDict kvs) = True"
| "is_dict _ = False"

text \<open>
  \<open>country['value']\<close>: a dict is looked up (\<open>KeyError\<close> when the key is absent); a
  string, a list, a number or \<open>None\<close> cannot be indexed by a string (\<open>TypeError\<close>).
\<close>

fun getitem_str :: "pyobj \<Rightarrow> pystr \<Rightarrow> error + pyobj" where
  "getitem_str (PyDict kvs) k = (case map_of kvs k of None \<Rightarrow> Inl KeyError | Some v \<Rightarrow> Inr v)"
| "getitem_str _ k = Inl TypeError"

text \<open>A list comprehension whose body may raise: the first exception ends it.\<close>

fun traverse :: "('a \<Rightarrow> error + 'b) \<Rightarrow> 'a list \<Rightarrow> error + 'b list" where
  "traverse f [] = Inr []"
| "traverse f (x # xs) =
     (case f x of
        Inl e \<Rightarrow> Inl e
      | Inr y \<Rightarrow> (case traverse f xs of Inl e \<Rightarrow> Inl e | Inr ys \<Rightarrow> Inr (y # ys)))"

text \<open>\<open>str(n)\<close> for a natural number: its decimal digits, as code points.\<close>

fun str_of_nat :: "nat \<Rightarrow> pystr" where
  "str_of_nat n = (if n < 10 then [48 + n] else str_of_nat (n div 10) @ [48 + n mod 10])"

declare str_of_nat.simps [simp del]

section \<open>Label shortening (line 96)\<close>

text \<open>
  \<open>country[:12] + '...' if len(country) > 12 else country\<close>. \<open>len\<close> is evaluated first.
  Of the sized values only a string can be sliced and extended by \<open>'...'\<close>: a list of more
  than 12 entries fails at \<open>list + str\<close>, a dict of more than 12 entries at the slice.
\<close>

definition short_label :: "pyobj \<Rightarrow> error + pyobj" where
  "short_label country =
     (case py_len country of
        Inl e \<Rightarrow> Inl e
      | Inr n \<Rightarrow>
          if n > 12 then
            (case country of
               PyStr s \<Rightarrow> Inr (PyStr (take 12 s @ lit ''...''))
             | _ \<Rightarrow> Inl TypeError)
          else Inr country)"

section \<open>Tables and dictionaries\<close>

text \<open>
  A pandas \<open>DataFrame\<close>, as far as the script looks at it: the number of rows
  (\<open>len(df)\<close>) and the columns in order, each with its cells. \<open>df.empty\<close> holds when
  either axis has length 0; \<open>df[name]\<close> raises \<open>KeyError\<close> for an absent column.
\<close>

record dataframe =
  df_len :: nat
  df_columns :: "(pystr \<times> pyobj list) list"

definition df_empty :: "dataframe \<Rightarrow> bool" where
  "df_empty df = (df_len df = 0 \<or> df_columns df = [])"

definition df_column :: "dataframe \<Rightarrow> pystr \<Rightarrow> error + pyobj list" where
  "df_column df name =
     (case map_of (df_columns df) name of None \<Rightarrow> Inl KeyError | Some col \<Rightarrow> Inr col)"

text \<open>
  The two dictionaries of the script, \<open>wb_data\<close> (indicator name to table) and \<open>data\<close>
  (field name to list), in insertion order. Their keys are identifiers of the program
  text. Every value the script stores in \<open>data\<close> is a list (a list literal, a
  comprehension or \<open>tolist()\<close>), so the test \<open>isinstance(data[key], list)\<close> of line 93
  holds of each entry. \<open>d[k] = v\<close> replaces the value of a present key in place and
  appends an absent one.
\<close>

type_synonym wb_data = "(string \<times> dataframe) list"
type_synonym data = "(string \<times> pyobj list) list"

fun dict_set :: "('k \<times> 'v) list \<Rightarrow> 'k \<Rightarrow> 'v \<Rightarrow> ('k \<times> 'v) list" where
  "dict_set [] k v = [(k, v)]"
| "dict_set ((k', v') # d) k v = (if k' = k then (k, v) # d else (k', v') # dict_set d k v)"

text \<open>\<open>d.get(k, default)\<close>.\<close>

definition dict_get :: "('k \<times> 'v) list \<Rightarrow> 'k \<Rightarrow> 'v \<Rightarrow> 'v" where
  "dict_get d k dflt = (case map_of d k of None \<Rightarrow> dflt | Some v \<Rightarrow> v)"

section \<open>Fetcher (lines 7 to 42)\<close>


text \<open>
  The network is a parameter: what \<open>requests.get(url, params)\<close>, \<open>raise_for_status()\<close>
  and \<open>response.json()\<close> give for a URL and its query parameters, either a
  \<open>RequestException\<close> with its message (a connection error, a timeout, an HTTP error
  status) or the decoded body; a body that does not decode is not modelled.
  \<open>pd.DataFrame\<close> is a parameter too; it may raise, and what it raises is no
  \<open>RequestException\<close>.
\<close>

datatype outcome = RequestException pystr | Json pyobj

type_synonym requests_get = "pystr \<Rightarrow> (string \<times> pyobj) list \<Rightarrow> outcome"
type_synonym pd_DataFrame = "pyobj \<Rightarrow> error + dataframe"

text \<open>
  \<open>data[1]\<close>, reached only when \<open>len(data) > 1\<close>: the second entry of a list, the second
  character of a string; the keys of a JSON object are strings, so 1 is none of them.
\<close>

fun getitem_1 :: "pyobj \<Rightarrow> error + pyobj" where
  "getitem_1 (PyList xs) = (if 1 < length xs then Inr (xs ! 1) else Inl IndexError)"
| "getitem_1 (PyStr s) = (if 1 < length s then Inr (PyStr [s ! 1]) else Inl IndexError)"
| "getitem_1 (PyDict kvs) = Inl KeyError"
| "getitem_1 _ = Inl TypeError"

definition fetched_line :: "string \<Rightarrow> pystr" where
  "fetched_line indicator_name = [0x2713] @ lit '' Fetched '' @ lit indicator_name @ lit '' data''"

definition error_line :: "string \<Rightarrow> pystr \<Rightarrow> pystr" where
  "error_line indicator_name e =
     [0x2717] @ lit '' Error fetching '' @ lit indicator_name @ lit '': '' @ e"

definition indicator_url :: "pystr \<Rightarrow> string \<Rightarrow> pystr" where
  "indicator_url countries indicator_code =
     lit ''https://api.worldbank.org/v2/country/'' @ countries
       @ lit ''/indicator/'' @ lit indicator_code"

definition query_params :: "pystr \<Rightarrow> (string \<times> pyobj) list" where
  "query_params year =
     [(''format'', PyStr (lit ''json'')), (''per_page'', PyNum 1000), (''date'', PyStr year)]"

text \<open>
  The body of the \<open>try\<close> block up to the table (lines 30 to 35), for one indicator code:
  the request failed with a \<open>RequestException\<close>; or the test \<open>len(data) > 1 and data[1]\<close>
  was false; or the table was built; or an exception that is no \<open>RequestException\<close> was
  raised (by \<open>len\<close>, by \<open>data[1]\<close> or by \<open>pd.DataFrame\<close>).
\<close>

datatype attempt_result = Failed pystr | NoPayload | Table dataframe | Raised error

definition attempt ::
  "requests_get \<Rightarrow> pd_DataFrame \<Rightarrow> pystr \<Rightarrow> pystr \<Rightarrow> string \<Rightarrow> attempt_result" where
  "attempt get DataFrame countries year indicator_code =
     (case get (indicator_url countries indicator_code) (query_params year) of
        RequestException e \<Rightarrow> Failed e
      | Json body \<Rightarrow>
          (case py_len body of
             Inl err \<Rightarrow> Raised err
           | Inr n \<Rightarrow>
               (if n > 1 then
                  (case getitem_1 body of
                     Inl err \<Rightarrow> Raised err
                   | Inr rows \<Rightarrow>
                       (if py_truthy rows then
                          (case DataFrame rows of Inl err \<Rightarrow> Raised err | Inr df \<Rightarrow> Table df)
                        else NoPayload))
                else NoPayload)))"




section \<open>Fallback generator (lines 44 to 59)\<close>

definition create_sample_demographic_data :: data where
  "create_sample_demographic_data =
     [(''countries'',
         map (\<lambda>s. PyStr (lit s))
           [''United States'', ''China'', ''India'', ''Germany'', ''Japan'', ''Brazil'',
            ''United Kingdom'', ''France'']),
      (''male_population'', map PyNum [163, 723, 717, 41, 61, 106, 33, 33]),
      (''female_population'', map PyNum [168, 689, 663, 42, 64, 109, 34, 35]),
      (''age_0_14_percent'', map PyNum [18.1, 17.3, 26.2, 13.9, 12.5, 21.1, 17.9, 17.9]),
      (''age_15_64_percent'', map PyNum [65.0, 70.1, 67.0, 64.9, 59.2, 69.6, 64.2, 61.7]),
      (''age_65_plus_percent'', map PyNum [16.9, 12.6, 6.8, 21.2, 28.3, 9.3, 17.9, 20.4])]"

section \<open>Choosing and assembling the data (lines 66 to 88)\<close>

text \<open>
  Lines 71 to 77. \<open>.iloc[0]\<close> raises \<open>IndexError\<close> on a column without rows. Only entry 0
  is tested with \<open>isinstance\<close>; the comprehension then indexes every entry.
\<close>

definition countries_of :: "dataframe \<Rightarrow> error + pyobj list" where
  "countries_of first_dataset =
     (case map_of (df_columns first_dataset) (lit ''country'') of
        Some col \<Rightarrow>
          (case col of
             [] \<Rightarrow> Inl IndexError
           | c0 # _ \<Rightarrow>
               (if is_dict c0 then traverse (\<lambda>country. getitem_str country (lit ''value'')) col
                else Inr col))
      | None \<Rightarrow>
          Inr (map (\<lambda>i. PyStr (lit ''Country_'' @ str_of_nat (i + 1))) [0..<df_len first_dataset]))"

text \<open>
  \<open>pd.to_numeric(..., errors='coerce')\<close> is pandas' and a parameter: for a column and a
  position in it, the float that pandas parses from the entry there, or \<open>None\<close> for the
  \<open>nan\<close> that \<open>errors='coerce'\<close> puts where nothing parses. The converted column has the
  positions of the column it was given. \<open>fillna(0)\<close> then replaces \<open>nan\<close> by 0.
\<close>

type_synonym pd_to_numeric = "pyobj list \<Rightarrow> nat \<Rightarrow> real option"

definition fillna_0 :: "real option \<Rightarrow> real" where
  "fillna_0 v = (case v of None \<Rightarrow> 0 | Some x \<Rightarrow> x)"

text \<open>Line 83: \<open>pd.to_numeric(df['value'], errors='coerce').fillna(0).tolist()\<close>.\<close>

definition indicator_values :: "pd_to_numeric \<Rightarrow> dataframe \<Rightarrow> error + pyobj list" where
  "indicator_values to_numeric df =
     (case df_column df (lit ''value'') of
        Inl e \<Rightarrow> Inl e
      | Inr col \<Rightarrow> Inr (map (\<lambda>i. PyNum (fillna_0 (to_numeric col i))) [0..<length col]))"

text \<open>
  A conversion for the worked examples: it keeps a number as it is and gives \<open>nan\<close> for
  every other entry.
\<close>

definition numbers_only :: pd_to_numeric where
  "numbers_only col i = (case col ! i of PyNum x \<Rightarrow> Some x | _ \<Rightarrow> None)"

text \<open>The loop of lines 81 to 84 over \<open>wb_data.items()\<close>.\<close>

fun collect_values :: "pd_to_numeric \<Rightarrow> wb_data \<Rightarrow> data \<Rightarrow> error + data" where
  "collect_values to_numeric [] d = Inr d"
| "collect_values to_numeric ((indicator_name, df) # rest) d =
     (if \<not> df_empty df then
        (case indicator_values to_numeric df of
           Inl e \<Rightarrow> Inl e
         | Inr vs \<Rightarrow> collect_values to_numeric rest (dict_set d indicator_name vs))
      else collect_values to_numeric rest d)"

text \<open>Lines 69 to 84: the branch that processes the fetched tables.\<close>

definition process_wb_data :: "pd_to_numeric \<Rightarrow> wb_data \<Rightarrow> error + data" where
  "process_wb_data to_numeric wb =
     (case wb of
        [] \<Rightarrow> Inl IndexError
      | (_, first_dataset) # _ \<Rightarrow>
          (case countries_of first_dataset of
             Inl e \<Rightarrow> Inl e
           | Inr countries \<Rightarrow> collect_values to_numeric wb [(''countries'', countries)]))"

text \<open>
  Lines 66 to 88, with the line each branch prints. \<open>wb_data\<close> as a condition is true of
  a non-empty dict, and \<open>len(wb_data)\<close> is the number of its entries.
\<close>

definition select_data :: "pd_to_numeric \<Rightarrow> wb_data \<Rightarrow> pystr \<times> (error + data)" where
  "select_data to_numeric wb =
     (if wb \<noteq> [] \<and> length wb > 2
      then (lit ''Processing World Bank data...'', process_wb_data to_numeric wb)
      else (lit ''Using sample demographic data...'', Inr create_sample_demographic_data))"

section \<open>Normalizer (lines 91 to 109)\<close>

record record_set =
  rs_data :: data
  num_countries :: nat
  countries_short :: "pyobj list"
  male_data :: "pyobj list"
  female_data :: "pyobj list"
  age_0_14 :: "pyobj list"
  age_15_64 :: "pyobj list"
  age_65_plus :: "pyobj list"

text \<open>Lines 91 to 94: every entry of \<open>data\<close> is cut to its first \<open>num_countries\<close> items.\<close>

definition truncate_data :: "nat \<Rightarrow> data \<Rightarrow> data" where
  "truncate_data n d = map (\<lambda>(key, v). (key, take n v)) d"

text \<open>Lines 99 to 105: the two population fields are chosen together.\<close>

definition population_fields :: "nat \<Rightarrow> data \<Rightarrow> pyobj list \<times> pyobj list" where
  "population_fields n d =
     (case (map_of d ''male_population'', map_of d ''female_population'') of
        (Some m, Some f) \<Rightarrow> (m, f)
      | _ \<Rightarrow>
          (take n (dict_get d ''male_pop'' (replicate n (PyNum 100))),
           take n (dict_get d ''female_pop'' (replicate n (PyNum 100)))))"

text \<open>Lines 107 to 109: \<open>data.get(k1, data.get(k2, [c] * num_countries))[:num_countries]\<close>.\<close>

definition age_field :: "nat \<Rightarrow> data \<Rightarrow> string \<Rightarrow> string \<Rightarrow> real \<Rightarrow> pyobj list" where
  "age_field n d k1 k2 c = take n (dict_get d k1 (dict_get d k2 (replicate n (PyNum c))))"

definition normalize_data :: "data \<Rightarrow> error + record_set" where
  "normalize_data data0 =
     (case map_of data0 ''countries'' of
        None \<Rightarrow> Inl KeyError
      | Some cs \<Rightarrow>
          (let n = min 8 (length cs);
               d = truncate_data n data0
           in (case map_of d ''countries'' of
                 None \<Rightarrow> Inl KeyError
               | Some cs' \<Rightarrow>
                   (case traverse short_label cs' of
                      Inl e \<Rightarrow> Inl e
                    | Inr short \<Rightarrow>
                        Inr \<lparr> rs_data = d,
                              num_countries = n,
                              countries_short = short,
                              male_data = fst (population_fields n d),
                              female_data = snd (population_fields n d),
                              age_0_14 = age_field n d ''age_0_14_percent'' ''age_0_14'' 20,
                              age_15_64 = age_field n d ''age_15_64_percent'' ''age_15_64'' 65,
                              age_65_plus = age_field n d ''age_65_plus_percent'' ''age_65_plus'' 15 \<rparr>))))"

section \<open>Averages of the age brackets (lines 131 to 135)\<close>

text \<open>
  \<open>np.mean\<close> of a flat list: the arithmetic mean of numbers (a boolean counts as 0 or
  1), \<open>nan\<close> for an empty list or one that holds a \<open>nan\<close>, and an exception where an
  entry is no number.
\<close>

fun is_number :: "pyobj \<Rightarrow> bool" where
  "is_number (PyNum x) = True"
| "is_number (PyBool b) = True"
| "is_number PyNaN = True"
| "is_number _ = False"

fun number_of :: "pyobj \<Rightarrow> real" where
  "number_of (PyNum x) = x"
| "number_of (PyBool b) = (if b then 1 else 0)"
| "number_of _ = 0"

definition np_mean :: "pyobj list \<Rightarrow> error + pyobj" where
  "np_mean xs =
     (if \<not> list_all is_number xs then Inl TypeError
      else if xs = [] \<or> PyNaN \<in> set xs then Inr PyNaN
      else Inr (PyNum (sum_list (map number_of xs) / real (length xs))))"

definition avg_age_dist :: "record_set \<Rightarrow> error + pyobj list" where
  "avg_age_dist rs = traverse np_mean [age_0_14 rs, age_15_64 rs, age_65_plus rs]"

section \<open>Gender chart (lines 115 to 119)\<close>

text \<open>
  \<open>ax1.bar(x - width/2, male_data, ...)\<close> and \<open>ax1.bar(x + width/2, female_data, ...)\<close>,
  with \<open>x = np.arange(len(countries_short))\<close>. matplotlib broadcasts the positions and
  the heights to one shape: they have the same length, or one of the two has length 1;
  otherwise it raises \<open>ValueError\<close>. The heights are numbers in every record set the
  script builds.
\<close>

definition ax_bar :: "nat \<Rightarrow> pyobj list \<Rightarrow> error + unit" where
  "ax_bar n heights =
     (if length heights = n \<or> length heights = 1 \<or> n = 1 then Inr () else Inl ValueError)"

definition plot_gender :: "record_set \<Rightarrow> error + unit" where
  "plot_gender rs =
     (case ax_bar (length (countries_short rs)) (male_data rs) of
        Inl e \<Rightarrow> Inl e
      | Inr u \<Rightarrow> ax_bar (length (countries_short rs)) (female_data rs))"

section \<open>The script after the fetch\<close>

text \<open>
  The script from line 66 on: the line printed by the branch taken and, unless an
  exception ended the run, the record set, the three averages and the country count of
  the summary (\<open>len(countries_short)\<close>). The bars of the gender chart are drawn before
  the averages are taken.
\<close>

definition script_after_fetch ::
  "pd_to_numeric \<Rightarrow> wb_data \<Rightarrow> pystr \<times> (error + record_set \<times> pyobj list \<times> nat)" where
  "script_after_fetch to_numeric wb =
     (case select_data to_numeric wb of
        (line, Inl e) \<Rightarrow> (line, Inl e)
      | (line, Inr d) \<Rightarrow>
          (case normalize_data d of
             Inl e \<Rightarrow> (line, Inl e)
           | Inr rs \<Rightarrow>
               (case plot_gender rs of
                  Inl e \<Rightarrow> (line, Inl e)
                | Inr u \<Rightarrow>
                    (case avg_age_dist rs of
                       Inl e \<Rightarrow> (line, Inl e)
                     | Inr avg \<Rightarrow> (line, Inr (rs, avg, length (countries_short rs)))))))"

section \<open>Field aliasing as the specification words it\<close>


section \<open>The fetch result as the specification words it\<close>

text \<open>
  The specification describes the result of the Fetcher as the mapping of exactly the
  indicators whose request succeeded with a non-empty payload, and its log as one line
  per table fetched and per request that failed. These are the two, read off the
  attempts in the order of \<open>INDICATORS\<close>, to be compared with what the loop builds.
\<close>

definition stored_tables ::
  "requests_get \<Rightarrow> pd_DataFrame \<Rightarrow> pystr \<Rightarrow> pystr \<Rightarrow> (string \<times> string) list \<Rightarrow> wb_data" where
  "stored_tables get DataFrame countries year inds =
     concat (map (\<lambda>(indicator_name, indicator_code).
                    case attempt get DataFrame countries year indicator_code of
                      Table df \<Rightarrow> [(indicator_name, df)]
                    | _ \<Rightarrow> []) inds)"

definition printed_lines ::
  "requests_get \<Rightarrow> pd_DataFrame \<Rightarrow> pystr \<Rightarrow> pystr \<Rightarrow> (string \<times> string) list \<Rightarrow> pystr list" where
  "printed_lines get DataFrame countries year inds =
     concat (map (\<lambda>(indicator_name, indicator_code).
                    case attempt get DataFrame countries year indicator_code of
                      Table df \<Rightarrow> [fetched_line indicator_name]
                    | Failed e \<Rightarrow> [error_line indicator_name e]
                    | _ \<Rightarrow> []) inds)"

section \<open>The coerced values as the specification words them\<close>



section \<open>Auxiliary facts\<close>

lemma map_of_truncate_data:
  "map_of (truncate_data n d) k = map_option (take n) (map_of d k)"
  by (induction d) (auto simp: truncate_data_def)

lemma traverse_short_label_strs:
  "traverse short_label (map PyStr names) =
     Inr (map (\<lambda>name. PyStr (if 12 < length name then take 12 name @ lit ''...'' else name)) names)"
  by (induction names) (auto simp: short_label_def)

lemma traverse_length:
  "traverse f xs = Inr ys \<Longrightarrow> length ys = length xs"
  by (induction xs arbitrary: ys) (auto split: sum.splits)

lemma normalize_data_names:
  "map_of data0 ''countries'' = Some (map PyStr names) \<Longrightarrow> \<exists>rs. normalize_data data0 = Inr rs"
  by (simp add: normalize_data_def Let_def map_of_truncate_data take_map traverse_short_label_strs)

lemma normalize_data_Inr:
  assumes "normalize_data data0 = Inr rs" and "map_of data0 ''countries'' = Some cs"
  shows "rs_data rs = truncate_data (min 8 (length cs)) data0"
    and "num_countries rs = min 8 (length cs)"
    and "traverse short_label (take (min 8 (length cs)) cs) = Inr (countries_short rs)"
    and "male_data rs = fst (population_fields (min 8 (length cs)) (truncate_data (min 8 (length cs)) data0))"
    and "female_data rs = snd (population_fields (min 8 (length cs)) (truncate_data (min 8 (length cs)) data0))"
    and "age_0_14 rs = age_field (min 8 (length cs)) (truncate_data (min 8 (length cs)) data0) ''age_0_14_percent'' ''age_0_14'' 20"
    and "age_15_64 rs = age_field (min 8 (length cs)) (truncate_data (min 8 (length cs)) data0) ''age_15_64_percent'' ''age_15_64'' 65"
    and "age_65_plus rs = age_field (min 8 (length cs)) (truncate_data (min 8 (length cs)) data0) ''age_65_plus_percent'' ''age_65_plus'' 15"
  using assms
  by (auto simp: normalize_data_def Let_def map_of_truncate_data split: sum.splits)

lemma age_field_truncated:
  "age_field n (truncate_data n d) k1 k2 c =
     (case map_of d k1 of
        Some xs \<Rightarrow> take n xs
      | None \<Rightarrow> (case map_of d k2 of Some xs \<Rightarrow> take n xs | None \<Rightarrow> replicate n (PyNum c)))"
  by (simp add: age_field_def dict_get_def map_of_truncate_data split: option.splits)


lemma population_fields_else:
  "map_of d ''male_population'' = None \<or> map_of d ''female_population'' = None \<Longrightarrow>
   population_fields n (truncate_data n d) =
     ((case map_of d ''male_pop'' of Some xs \<Rightarrow> take n xs | None \<Rightarrow> replicate n (PyNum 100)),
      (case map_of d ''female_pop'' of Some xs \<Rightarrow> take n xs | None \<Rightarrow> replicate n (PyNum 100)))"
  by (auto simp: population_fields_def dict_get_def map_of_truncate_data split: option.splits)

lemma age_field_length: "length (age_field n d k1 k2 c) \<le> n"
  by (simp add: age_field_def)

lemma population_fields_length:
  "length (fst (population_fields n (truncate_data n d))) \<le> n"
  "length (snd (population_fields n (truncate_data n d))) \<le> n"
  by (auto simp: population_fields_def map_of_truncate_data split: option.splits)


lemma unequal_lengths_example:
  "script_after_fetch numbers_only
     [(''male_pop'', \<lparr> df_len = 2, df_columns = [(lit ''country'', [PyStr [65], PyStr [66]]), (lit ''value'', [PyNum 1, PyNum 2])] \<rparr>),
      (''female_pop'', \<lparr> df_len = 2, df_columns = [(lit ''country'', [PyStr [65], PyStr [66]]), (lit ''value'', [PyNum 3, PyNone])] \<rparr>),
      (''age_0_14'', \<lparr> df_len = 1, df_columns = [(lit ''country'', [PyStr [65]]), (lit ''value'', [PyNum 30])] \<rparr>)]
   = (lit ''Processing World Bank data...'',
      Inr (\<lparr> rs_data = [(''countries'', [PyStr [65], PyStr [66]]),
                           (''male_pop'', [PyNum 1, PyNum 2]),
                           (''female_pop'', [PyNum 3, PyNum 0]),
                           (''age_0_14'', [PyNum 30])],
              num_countries = 2,
              countries_short = [PyStr [65], PyStr [66]],
              male_data = [PyNum 1, PyNum 2],
              female_data = [PyNum 3, PyNum 0],
              age_0_14 = [PyNum 30],
              age_15_64 = [PyNum 65, PyNum 65],
              age_65_plus = [PyNum 15, PyNum 15] \<rparr>,
           [PyNum 30, PyNum 65, PyNum 15], 2))"
  by (simp add: script_after_fetch_def select_data_def process_wb_data_def countries_of_def
      lit_def df_empty_def indicator_values_def df_column_def fillna_0_def normalize_data_def
      truncate_data_def short_label_def population_fields_def dict_get_def age_field_def
      avg_age_dist_def np_mean_def plot_gender_def ax_bar_def numbers_only_def)

lemma traverse_value_names:
  "map (\<lambda>kvs. map_of kvs k) dicts = map Some names \<Longrightarrow>
   traverse (\<lambda>country. getitem_str country k) (map PyDict dicts) = Inr names"
  by (induction dicts arbitrary: names) auto

lemma traverse_value_mixed:
  "\<exists>c\<in>set col. \<not> is_dict c \<Longrightarrow>
   traverse (\<lambda>country. getitem_str country k) col = Inl TypeError
   \<or> traverse (\<lambda>country. getitem_str country k) col = Inl KeyError"
proof (induction col)
  case Nil
  then show ?case by simp
next
  case (Cons c col)
  show ?case
  proof (cases c)
    case (PyDict kvs)
    with Cons.prems have "\<exists>c\<in>set col. \<not> is_dict c" by simp
    from Cons.IH [OF this] PyDict show ?thesis
      by (auto split: option.splits)
  qed simp_all
qed

lemma str_of_nat_digits: "\<forall>c\<in>set (str_of_nat n). 48 \<le> c \<and> c \<le> 57"
proof (induction n rule: str_of_nat.induct)
  case (1 n)
  show ?case
  proof (cases "n < 10")
    case True
    then show ?thesis by (simp add: str_of_nat.simps [of n])
  next
    case False
    with 1 show ?thesis by (subst str_of_nat.simps) auto
  qed
qed

lemma str_of_nat_value: "foldl (\<lambda>a c. 10 * a + (c - 48)) 0 (str_of_nat n) = n"
proof (induction n rule: str_of_nat.induct)
  case (1 n)
  show ?case
  proof (cases "n < 10")
    case True
    then show ?thesis by (simp add: str_of_nat.simps [of n])
  next
    case False
    with 1 show ?thesis by (subst str_of_nat.simps) simp
  qed
qed


lemma stored_tables_Nil [simp]: "stored_tables get DF c y [] = []"
  by (simp add: stored_tables_def)

lemma printed_lines_Nil [simp]: "printed_lines get DF c y [] = []"
  by (simp add: printed_lines_def)






















section \<open>Label shortening\<close>

text \<open>
  Claim C6. When the countries of the data are strings, normalization succeeds; the
  chart label of each of the countries kept is its first 12 characters followed by
  \<open>...\<close> if the name has more than 12 characters and the name itself otherwise; and
  the countries entry of the record set still holds the names as they were.
\<close>

theorem label_shortening:
  assumes "map_of data0 ''countries'' = Some (map PyStr names)"
  shows "\<exists>rs. normalize_data data0 = Inr rs
           \<and> countries_short rs =
               map (\<lambda>name. PyStr (if 12 < length name then take 12 name @ lit ''...'' else name))
                 (take (min 8 (length names)) names)
           \<and> map_of (rs_data rs) ''countries'' = Some (map PyStr (take (min 8 (length names)) names))"
  using assms
  by (simp add: normalize_data_def Let_def map_of_truncate_data take_map traverse_short_label_strs)

theorem label_shortening_witness:
  "\<exists>rs. normalize_data [(''countries'', [PyStr (lit ''United Kingdom''), PyStr (lit ''France'')])] = Inr rs
     \<and> countries_short rs = [PyStr (lit ''United Kingd...''), PyStr (lit ''France'')]
     \<and> map_of (rs_data rs) ''countries'' = Some [PyStr (lit ''United Kingdom''), PyStr (lit ''France'')]"
  using label_shortening [of "[(''countries'', [PyStr (lit ''United Kingdom''), PyStr (lit ''France'')])]"
      "[lit ''United Kingdom'', lit ''France'']"]
  by (simp add: lit_def)

section \<open>Truncation\<close>

text \<open>
  Claim C4. Let the data hold a countries list. Whenever normalization returns a record
  set, its dictionary has the keys of the data in their order, and each list of the data
  appears in it cut to its first \<open>min 8 (number of countries)\<close> items: a prefix of the
  original list, of at most 8 items and at most as many as there are countries. There
  are exactly \<open>min 8 (number of countries)\<close> chart labels, and none of the five numeric
  fields is longer. Normalization does return a record set when the countries are
  strings.
\<close>

theorem truncation_prefix:
  assumes "map_of data0 ''countries'' = Some cs"
  shows "(\<forall>rs. normalize_data data0 = Inr rs \<longrightarrow>
            map fst (rs_data rs) = map fst data0
          \<and> (\<forall>key xs. map_of data0 key = Some xs \<longrightarrow>
                map_of (rs_data rs) key = Some (take (min 8 (length cs)) xs)
              \<and> prefix (take (min 8 (length cs)) xs) xs
              \<and> length (take (min 8 (length cs)) xs) \<le> 8
              \<and> length (take (min 8 (length cs)) xs) \<le> length cs)
          \<and> length (countries_short rs) = min 8 (length cs)
          \<and> length (male_data rs) \<le> min 8 (length cs)
          \<and> length (female_data rs) \<le> min 8 (length cs)
          \<and> length (age_0_14 rs) \<le> min 8 (length cs)
          \<and> length (age_15_64 rs) \<le> min 8 (length cs)
          \<and> length (age_65_plus rs) \<le> min 8 (length cs))
       \<and> ((\<exists>names. cs = map PyStr names) \<longrightarrow> (\<exists>rs. normalize_data data0 = Inr rs))"
proof (intro conjI allI impI)
  fix rs assume ok: "normalize_data data0 = Inr rs"
  note facts = normalize_data_Inr [OF ok assms]
  show "map fst (rs_data rs) = map fst data0"
    by (simp add: facts(1) truncate_data_def case_prod_unfold)
  show "length (countries_short rs) = min 8 (length cs)"
    using traverse_length [OF facts(3)] by simp
  show "length (male_data rs) \<le> min 8 (length cs)"
    by (simp only: facts(4) population_fields_length)
  show "length (female_data rs) \<le> min 8 (length cs)"
    by (simp only: facts(5) population_fields_length)
  show "length (age_0_14 rs) \<le> min 8 (length cs)"
    by (simp only: facts(6) age_field_length)
  show "length (age_15_64 rs) \<le> min 8 (length cs)"
    by (simp only: facts(7) age_field_length)
  show "length (age_65_plus rs) \<le> min 8 (length cs)"
    by (simp only: facts(8) age_field_length)
  fix key xs assume "map_of data0 key = Some xs"
  then show "map_of (rs_data rs) key = Some (take (min 8 (length cs)) xs)"
    by (simp add: facts(1) map_of_truncate_data)
  show "prefix (take (min 8 (length cs)) xs) xs"
    by (rule take_is_prefix)
  show "length (take (min 8 (length cs)) xs) \<le> 8"
    by simp
  show "length (take (min 8 (length cs)) xs) \<le> length cs"
    by simp
next
  assume "\<exists>names. cs = map PyStr names"
  then show "\<exists>rs. normalize_data data0 = Inr rs"
    using assms normalize_data_names by blast
qed

theorem truncation_prefix_witness:
  "\<exists>rs. normalize_data
          [(''countries'', map PyStr [[65], [66], [67], [68], [69], [70], [71], [72], [73]]),
           (''male_pop'', map PyNum [1, 2, 3, 4, 5, 6, 7, 8, 9]),
           (''age_0_14'', map PyNum [10, 20])] = Inr rs
     \<and> map_of (rs_data rs) ''countries'' = Some (map PyStr [[65], [66], [67], [68], [69], [70], [71], [72]])
     \<and> map_of (rs_data rs) ''male_pop'' = Some (map PyNum [1, 2, 3, 4, 5, 6, 7, 8])
     \<and> map_of (rs_data rs) ''age_0_14'' = Some (map PyNum [10, 20])
     \<and> length (countries_short rs) = 8"
proof -
  let ?cs = "map PyStr [[65], [66], [67], [68], [69], [70], [71], [72], [73]]"
  let ?d = "[(''countries'', ?cs),
             (''male_pop'', map PyNum [1, 2, 3, 4, 5, 6, 7, 8, 9]),
             (''age_0_14'', map PyNum [10, 20])]"
  have h: "map_of ?d ''countries'' = Some ?cs" by simp
  note t = truncation_prefix [OF h]
  from t have "\<exists>rs. normalize_data ?d = Inr rs" by blast
  then obtain rs where ok: "normalize_data ?d = Inr rs" ..
  from t ok have
    k: "\<forall>key xs. map_of ?d key = Some xs \<longrightarrow> map_of (rs_data rs) key = Some (take (min 8 (length ?cs)) xs)"
    and l: "length (countries_short rs) = min 8 (length ?cs)"
    by blast+
  have "map_of (rs_data rs) ''countries'' = Some (map PyStr [[65], [66], [67], [68], [69], [70], [71], [72]])"
    using k [rule_format, of "''countries''" ?cs] by simp
  moreover have "map_of (rs_data rs) ''male_pop'' = Some (map PyNum [1, 2, 3, 4, 5, 6, 7, 8])"
    using k [rule_format, of "''male_pop''" "map PyNum [1, 2, 3, 4, 5, 6, 7, 8, 9]"] by simp
  moreover have "map_of (rs_data rs) ''age_0_14'' = Some (map PyNum [10, 20])"
    using k [rule_format, of "''age_0_14''" "map PyNum [10, 20]"] by simp
  moreover have "length (countries_short rs) = 8"
    using l by simp
  ultimately show ?thesis using ok by blast
qed

text \<open>
  Claim C10. The truncation count depends on the countries list alone. A list of the data
  that is shorter than \<open>min 8 (number of countries)\<close> is kept as it is, in the dictionary
  of the record set and in the field read from it, so it stays shorter than the list of
  chart labels: nothing is padded. The last part is a run of the script on three fetched
  tables of which the third has fewer rows: the age field has fewer entries than there
  are labels.
\<close>

theorem truncation_never_pads:
  assumes "map_of data0 ''countries'' = Some cs"
    and "map_of data0 key = Some xs"
    and "length xs < min 8 (length cs)"
  shows "(\<forall>rs. normalize_data data0 = Inr rs \<longrightarrow>
            num_countries rs = min 8 (length cs)
          \<and> length (countries_short rs) = min 8 (length cs)
          \<and> map_of (rs_data rs) key = Some xs
          \<and> (key = ''male_pop'' \<and> (map_of data0 ''male_population'' = None
                                     \<or> map_of data0 ''female_population'' = None) \<longrightarrow> male_data rs = xs)
          \<and> (key = ''female_pop'' \<and> (map_of data0 ''male_population'' = None
                                     \<or> map_of data0 ''female_population'' = None) \<longrightarrow> female_data rs = xs)
          \<and> (key = ''age_0_14'' \<and> map_of data0 ''age_0_14_percent'' = None \<longrightarrow> age_0_14 rs = xs)
          \<and> (key = ''age_15_64'' \<and> map_of data0 ''age_15_64_percent'' = None \<longrightarrow> age_15_64 rs = xs)
          \<and> (key = ''age_65_plus'' \<and> map_of data0 ''age_65_plus_percent'' = None \<longrightarrow> age_65_plus rs = xs))
       \<and> ((\<exists>names. cs = map PyStr names) \<longrightarrow> (\<exists>rs. normalize_data data0 = Inr rs))
       \<and> (\<exists>to_numeric wb line rs avg k.
             script_after_fetch to_numeric wb = (line, Inr (rs, avg, k))
           \<and> length (age_0_14 rs) < length (countries_short rs))"
proof (intro conjI allI impI)
  fix rs assume ok: "normalize_data data0 = Inr rs"
  note facts = normalize_data_Inr [OF ok assms(1)]
  let ?n = "min 8 (length cs)"
  have tk: "take ?n xs = xs" using assms(3) by simp
  show "num_countries rs = ?n" by (rule facts(2))
  show "length (countries_short rs) = ?n"
    using traverse_length [OF facts(3)] by simp
  show "map_of (rs_data rs) key = Some xs"
    using assms(2) tk by (simp add: facts(1) map_of_truncate_data)
  {
    assume "key = ''male_pop'' \<and> (map_of data0 ''male_population'' = None
               \<or> map_of data0 ''female_population'' = None)"
    then show "male_data rs = xs"
      using assms(2) tk by (simp add: facts(4) population_fields_else)
  }
  {
    assume "key = ''female_pop'' \<and> (map_of data0 ''male_population'' = None
               \<or> map_of data0 ''female_population'' = None)"
    then show "female_data rs = xs"
      using assms(2) tk by (simp add: facts(5) population_fields_else)
  }
  {
    assume "key = ''age_0_14'' \<and> map_of data0 ''age_0_14_percent'' = None"
    then show "age_0_14 rs = xs"
      using assms(2) tk by (simp add: facts(6) age_field_truncated)
  }
  {
    assume "key = ''age_15_64'' \<and> map_of data0 ''age_15_64_percent'' = None"
    then show "age_15_64 rs = xs"
      using assms(2) tk by (simp add: facts(7) age_field_truncated)
  }
  {
    assume "key = ''age_65_plus'' \<and> map_of data0 ''age_65_plus_percent'' = None"
    then show "age_65_plus rs = xs"
      using assms(2) tk by (simp add: facts(8) age_field_truncated)
  }
next
  assume "\<exists>names. cs = map PyStr names"
  then show "\<exists>rs. normalize_data data0 = Inr rs"
    using assms(1) normalize_data_names by blast
next
  show "\<exists>to_numeric wb line rs avg k.
          script_after_fetch to_numeric wb = (line, Inr (rs, avg, k))
        \<and> length (age_0_14 rs) < length (countries_short rs)"
    by (intro exI conjI, rule unequal_lengths_example) simp
qed

theorem truncation_never_pads_witness:
  "\<exists>rs. normalize_data
          [(''countries'', [PyStr [65], PyStr [66], PyStr [67]]),
           (''male_pop'', [PyNum 1, PyNum 2, PyNum 3]),
           (''age_0_14'', [PyNum 30])] = Inr rs
     \<and> length (countries_short rs) = 3
     \<and> map_of (rs_data rs) ''age_0_14'' = Some [PyNum 30]
     \<and> age_0_14 rs = [PyNum 30]"
proof -
  let ?cs = "[PyStr [65], PyStr [66], PyStr [67]]"
  let ?d = "[(''countries'', ?cs), (''male_pop'', [PyNum 1, PyNum 2, PyNum 3]),
             (''age_0_14'', [PyNum 30])]"
  have h1: "map_of ?d ''countries'' = Some ?cs" by simp
  have h2: "map_of ?d ''age_0_14'' = Some [PyNum 30]" by simp
  have h3: "length [PyNum 30] < min 8 (length ?cs)" by simp
  note t = truncation_never_pads [OF h1 h2 h3]
  have ex: "\<exists>names. ?cs = map PyStr names"
    by (rule exI [of _ "[[65], [66], [67]]"]) simp
  from t [THEN conjunct2, THEN conjunct1, THEN mp, OF ex]
  obtain rs where ok: "normalize_data ?d = Inr rs" ..
  note r = t [THEN conjunct1, THEN spec, THEN mp, OF ok]
  have "length (countries_short rs) = 3" "map_of (rs_data rs) ''age_0_14'' = Some [PyNum 30]"
    "age_0_14 rs = [PyNum 30]"
    using r by simp_all
  with ok show ?thesis by (intro exI conjI)
qed

section \<open>Field aliasing\<close>



section \<open>Sample data or fetched data\<close>

text \<open>
  Claim C1. With two or fewer tables in the fetch result the script prints that it uses
  the sample data and the data are the hard-coded sample structure, whatever the tables
  hold: the rest of the run is the run on an empty fetch result. With more than two
  tables it prints that it processes the fetched data, and the data are what lines 69 to
  84 build from the tables.
\<close>

theorem fallback_threshold:
  "(length wb \<le> 2 \<longrightarrow>
      select_data to_numeric wb = (lit ''Using sample demographic data...'', Inr create_sample_demographic_data)
    \<and> script_after_fetch to_numeric wb = script_after_fetch to_numeric [])
   \<and> (2 < length wb \<longrightarrow>
      select_data to_numeric wb = (lit ''Processing World Bank data...'', process_wb_data to_numeric wb))"
  by (auto simp: select_data_def script_after_fetch_def)

theorem fallback_threshold_witness:
  "select_data numbers_only
     [(''male_pop'', \<lparr> df_len = 1, df_columns = [(lit ''value'', [PyNum 1])] \<rparr>),
      (''female_pop'', \<lparr> df_len = 1, df_columns = [(lit ''value'', [PyNum 2])] \<rparr>)]
     = (lit ''Using sample demographic data...'', Inr create_sample_demographic_data)
   \<and> select_data numbers_only
     [(''male_pop'', \<lparr> df_len = 1, df_columns = [(lit ''value'', [PyNum 1])] \<rparr>),
      (''female_pop'', \<lparr> df_len = 1, df_columns = [(lit ''value'', [PyNum 2])] \<rparr>),
      (''age_0_14'', \<lparr> df_len = 1, df_columns = [(lit ''value'', [PyNum 3])] \<rparr>)]
     = (lit ''Processing World Bank data...'',
        Inr [(''countries'', [PyStr (lit ''Country_1'')]),
             (''male_pop'', [PyNum 1]), (''female_pop'', [PyNum 2]), (''age_0_14'', [PyNum 3])])"
  using
    fallback_threshold [where to_numeric = numbers_only and wb =
      "[(''male_pop'', \<lparr> df_len = 1, df_columns = [(lit ''value'', [PyNum 1])] \<rparr>),
        (''female_pop'', \<lparr> df_len = 1, df_columns = [(lit ''value'', [PyNum 2])] \<rparr>)]"]
    fallback_threshold [where to_numeric = numbers_only and wb =
      "[(''male_pop'', \<lparr> df_len = 1, df_columns = [(lit ''value'', [PyNum 1])] \<rparr>),
        (''female_pop'', \<lparr> df_len = 1, df_columns = [(lit ''value'', [PyNum 2])] \<rparr>),
        (''age_0_14'', \<lparr> df_len = 1, df_columns = [(lit ''value'', [PyNum 3])] \<rparr>)]"]
  by (simp add: process_wb_data_def countries_of_def lit_def df_empty_def indicator_values_def
      df_column_def fillna_0_def str_of_nat.simps numbers_only_def)

text \<open>
  Claim C3. On an empty fetch result the script takes the sample branch; the record set
  holds the eight sample countries, the country count of the summary is 8, and the
  averages of the three age brackets are 18.1125, 65.2125 and 16.675 (numbers as exact
  decimals).
\<close>

theorem sample_run:
  "script_after_fetch to_numeric [] =
     (lit ''Using sample demographic data...'',
      Inr (\<lparr> rs_data = create_sample_demographic_data,
              num_countries = 8,
              countries_short =
                map (\<lambda>s. PyStr (lit s))
                  [''United State...'', ''China'', ''India'', ''Germany'', ''Japan'', ''Brazil'',
                   ''United Kingd...'', ''France''],
              male_data = map PyNum [163, 723, 717, 41, 61, 106, 33, 33],
              female_data = map PyNum [168, 689, 663, 42, 64, 109, 34, 35],
              age_0_14 = map PyNum [18.1, 17.3, 26.2, 13.9, 12.5, 21.1, 17.9, 17.9],
              age_15_64 = map PyNum [65.0, 70.1, 67.0, 64.9, 59.2, 69.6, 64.2, 61.7],
              age_65_plus = map PyNum [16.9, 12.6, 6.8, 21.2, 28.3, 9.3, 17.9, 20.4] \<rparr>,
           [PyNum 18.1125, PyNum 65.2125, PyNum 16.675], 8))"
  by (simp add: script_after_fetch_def select_data_def create_sample_demographic_data_def
      normalize_data_def truncate_data_def short_label_def lit_def population_fields_def
      dict_get_def age_field_def avg_age_dist_def np_mean_def plot_gender_def ax_bar_def)

section \<open>Country identifiers\<close>

text \<open>
  Claim C5. On the first table of the fetch result: a non-empty country column of dicts
  that each have a \<open>value\<close> entry gives those entries (the display names, not the \<open>id\<close>
  codes); a non-empty country column of strings gives the strings; a table without a
  country column gives \<open>Country_1\<close>, \<open>Country_2\<close>, ..., one per row.
\<close>

theorem country_identifiers:
  "(map_of (df_columns df) (lit ''country'') = Some (map PyDict dicts) \<and> dicts \<noteq> []
      \<and> map (\<lambda>kvs. map_of kvs (lit ''value'')) dicts = map Some names \<longrightarrow>
        countries_of df = Inr names)
   \<and> (map_of (df_columns df) (lit ''country'') = Some (map PyStr strs) \<and> strs \<noteq> [] \<longrightarrow>
        countries_of df = Inr (map PyStr strs))
   \<and> (map_of (df_columns df) (lit ''country'') = None \<longrightarrow>
        countries_of df =
          Inr (map (\<lambda>i. PyStr (lit ''Country_'' @ str_of_nat (i + 1))) [0..<df_len df])
      \<and> (\<exists>cs. countries_of df = Inr cs \<and> length cs = df_len df))
   \<and> process_wb_data to_numeric ((indicator_name, df) # rest) =
        (case countries_of df of
           Inl e \<Rightarrow> Inl e
         | Inr cs \<Rightarrow> collect_values to_numeric ((indicator_name, df) # rest) [(''countries'', cs)])"
proof (intro conjI impI)
  assume "map_of (df_columns df) (lit ''country'') = Some (map PyDict dicts) \<and> dicts \<noteq> []
      \<and> map (\<lambda>kvs. map_of kvs (lit ''value'')) dicts = map Some names"
  then show "countries_of df = Inr names"
    by (cases dicts) (auto simp: countries_of_def traverse_value_names [of _ "_ # _", simplified])
next
  assume "map_of (df_columns df) (lit ''country'') = Some (map PyStr strs) \<and> strs \<noteq> []"
  then show "countries_of df = Inr (map PyStr strs)"
    by (cases strs) (auto simp: countries_of_def)
next
  assume "map_of (df_columns df) (lit ''country'') = None"
  then show "countries_of df =
          Inr (map (\<lambda>i. PyStr (lit ''Country_'' @ str_of_nat (i + 1))) [0..<df_len df])"
    and "\<exists>cs. countries_of df = Inr cs \<and> length cs = df_len df"
    by (simp_all add: countries_of_def)
next
  show "process_wb_data to_numeric ((indicator_name, df) # rest) =
        (case countries_of df of
           Inl e \<Rightarrow> Inl e
         | Inr cs \<Rightarrow> collect_values to_numeric ((indicator_name, df) # rest) [(''countries'', cs)])"
    by (simp add: process_wb_data_def)
qed

theorem country_identifiers_witness:
  "countries_of \<lparr> df_len = 2, df_columns =
       [(lit ''country'',
           [PyDict [(lit ''id'', PyStr (lit ''US'')), (lit ''value'', PyStr (lit ''United States''))],
            PyDict [(lit ''id'', PyStr (lit ''CN'')), (lit ''value'', PyStr (lit ''China''))]]),
        (lit ''value'', [PyNum 1, PyNum 2])] \<rparr>
     = Inr [PyStr (lit ''United States''), PyStr (lit ''China'')]
   \<and> countries_of \<lparr> df_len = 2, df_columns =
       [(lit ''country'', [PyStr (lit ''Japan''), PyStr (lit ''France'')])] \<rparr>
     = Inr [PyStr (lit ''Japan''), PyStr (lit ''France'')]
   \<and> countries_of \<lparr> df_len = 2, df_columns = [(lit ''value'', [PyNum 1, PyNum 2])] \<rparr>
     = Inr [PyStr (lit ''Country_1''), PyStr (lit ''Country_2'')]"
proof -
  let ?ds = "[[(lit ''id'', PyStr (lit ''US'')), (lit ''value'', PyStr (lit ''United States''))],
              [(lit ''id'', PyStr (lit ''CN'')), (lit ''value'', PyStr (lit ''China''))]]"
  let ?ns = "[PyStr (lit ''United States''), PyStr (lit ''China'')]"
  let ?a = "\<lparr> df_len = 2, df_columns =
              [(lit ''country'', map PyDict ?ds), (lit ''value'', [PyNum 1, PyNum 2])] \<rparr>"
  let ?ss = "[lit ''Japan'', lit ''France'']"
  let ?b = "\<lparr> df_len = 2, df_columns = [(lit ''country'', map PyStr ?ss)] \<rparr>"
  let ?c = "\<lparr> df_len = 2, df_columns = [(lit ''value'', [PyNum 1, PyNum 2])] \<rparr>"
  have ha: "map_of (df_columns ?a) (lit ''country'') = Some (map PyDict ?ds) \<and> ?ds \<noteq> []
      \<and> map (\<lambda>kvs. map_of kvs (lit ''value'')) ?ds = map Some ?ns"
    by (simp add: lit_def)
  have hb: "map_of (df_columns ?b) (lit ''country'') = Some (map PyStr ?ss) \<and> ?ss \<noteq> []"
    by simp
  have hc: "map_of (df_columns ?c) (lit ''country'') = None"
    by (simp add: lit_def)
  have "countries_of ?a = Inr ?ns"
    by (rule country_identifiers [THEN conjunct1, THEN mp, OF ha])
  moreover have "countries_of ?b = Inr (map PyStr ?ss)"
    by (rule country_identifiers [THEN conjunct2, THEN conjunct1, THEN mp, OF hb])
  moreover have "countries_of ?c =
      Inr (map (\<lambda>i. PyStr (lit ''Country_'' @ str_of_nat (i + 1))) [0..<df_len ?c])"
    by (rule country_identifiers
        [THEN conjunct2, THEN conjunct2, THEN conjunct1, THEN mp, OF hc, THEN conjunct1])
  ultimately show ?thesis
    by (simp add: lit_def str_of_nat.simps upt_conv_Cons)
qed

text \<open>
  Claim C9. Only entry 0 of a non-empty country column is tested. If it is a dict, every
  entry is indexed by \<open>value\<close>, so a column with a later entry that is no dict ends in an
  exception; if it is no dict, the column is used as it is, whatever the later entries
  are.
\<close>

theorem first_entry_decides:
  assumes "map_of (df_columns df) (lit ''country'') = Some (c0 # rest)"
  shows "(is_dict c0 \<longrightarrow>
            countries_of df = traverse (\<lambda>country. getitem_str country (lit ''value'')) (c0 # rest))
       \<and> (is_dict c0 \<and> (\<exists>c\<in>set rest. \<not> is_dict c) \<longrightarrow>
            countries_of df = Inl TypeError \<or> countries_of df = Inl KeyError)
       \<and> (\<not> is_dict c0 \<longrightarrow> countries_of df = Inr (c0 # rest))"
proof (intro conjI impI)
  assume "is_dict c0"
  with assms show "countries_of df = traverse (\<lambda>country. getitem_str country (lit ''value'')) (c0 # rest)"
    by (simp add: countries_of_def)
next
  assume a: "is_dict c0 \<and> (\<exists>c\<in>set rest. \<not> is_dict c)"
  then have "\<exists>c\<in>set (c0 # rest). \<not> is_dict c" by simp
  from traverse_value_mixed [OF this, of "lit ''value''"] a assms
  show "countries_of df = Inl TypeError \<or> countries_of df = Inl KeyError"
    by (simp add: countries_of_def)
next
  assume "\<not> is_dict c0"
  with assms show "countries_of df = Inr (c0 # rest)"
    by (simp add: countries_of_def)
qed

theorem first_entry_decides_witness:
  "countries_of \<lparr> df_len = 2, df_columns =
       [(lit ''country'', [PyDict [(lit ''value'', PyStr (lit ''Japan''))], PyStr (lit ''France'')])] \<rparr>
     = Inl TypeError
   \<and> countries_of \<lparr> df_len = 2, df_columns =
       [(lit ''country'', [PyStr (lit ''France''), PyDict [(lit ''value'', PyStr (lit ''Japan''))]])] \<rparr>
     = Inr [PyStr (lit ''France''), PyDict [(lit ''value'', PyStr (lit ''Japan''))]]"
proof -
  let ?a = "\<lparr> df_len = 2, df_columns =
       [(lit ''country'', [PyDict [(lit ''value'', PyStr (lit ''Japan''))], PyStr (lit ''France'')])] \<rparr>"
  let ?b = "\<lparr> df_len = 2, df_columns =
       [(lit ''country'', [PyStr (lit ''France''), PyDict [(lit ''value'', PyStr (lit ''Japan''))]])] \<rparr>"
  have ha: "map_of (df_columns ?a) (lit ''country'')
              = Some (PyDict [(lit ''value'', PyStr (lit ''Japan''))] # [PyStr (lit ''France'')])"
    by simp
  have hb: "map_of (df_columns ?b) (lit ''country'')
              = Some (PyStr (lit ''France'') # [PyDict [(lit ''value'', PyStr (lit ''Japan''))]])"
    by simp
  from first_entry_decides [OF ha] have "countries_of ?a = Inl TypeError"
    by simp
  moreover from first_entry_decides [OF hb]
  have "countries_of ?b = Inr [PyStr (lit ''France''), PyDict [(lit ''value'', PyStr (lit ''Japan''))]]"
    by simp
  ultimately show ?thesis by (intro conjI)
qed

section \<open>Numeric coercion\<close>




section \<open>Fetcher\<close>



end
